theory Spec2Isabelle
  imports Main "HOL-Library.Word"
begin

section \<open>JavaScript values used by the game\<close>

text \<open>
  A JavaScript string is a sequence of UTF-16 code units; \<open>length\<close>, indexing,
  \<open>split('')\<close> and \<open>===\<close> all work on code units. The cells of the array
  \<open>letrasDescubiertas\<close> hold strings; a cell that was never written (a hole, read
  as \<open>undefined\<close>) is \<open>None\<close>.
\<close>

type_synonym unidad = "16 word"
type_synonym jsstring = "unidad list"
type_synonym arreglo = "jsstring option list"

text \<open>ASCII literals of the source, written as Isabelle strings.\<close>

definition lit :: "string \<Rightarrow> jsstring" where
  "lit s = map (\<lambda>c. of_nat (of_char c)) s"

definition guion :: jsstring where
  "guion = [0x5F]"

subsection \<open>\<open>String.prototype.toUpperCase\<close>\<close>

text \<open>
  The engine's case conversion is not part of the repository. On Basic Latin and the
  Latin-1 Supplement (every code unit below \<open>0x100\<close>, which covers the alphabet the
  game accepts) it is written out here, one code point at a time, from the Unicode
  default case conversion: \<open>a-z\<close>, \<open>0xE0-0xF6\<close> and \<open>0xF8-0xFE\<close> move down by
  \<open>0x20\<close>, the micro sign goes to U+039C, sharp s to \<open>SS\<close>, y with diaeresis to
  U+0178, everything else stays. For a string with a code unit from \<open>0x100\<close> on, the
  Unicode table is the parameter \<open>tabla\<close>, about which nothing is assumed.
\<close>

definition mayus_latin1 :: "unidad \<Rightarrow> jsstring" where
  "mayus_latin1 u =
     (if 0x61 \<le> u \<and> u \<le> 0x7A then [u - 0x20]
      else if u = 0xB5 then [0x39C]
      else if u = 0xDF then [0x53, 0x53]
      else if 0xE0 \<le> u \<and> u \<le> 0xF6 then [u - 0x20]
      else if 0xF8 \<le> u \<and> u \<le> 0xFE then [u - 0x20]
      else if u = 0xFF then [0x178]
      else [u])"

definition toUpperCase :: "(jsstring \<Rightarrow> jsstring) \<Rightarrow> jsstring \<Rightarrow> jsstring" where
  "toUpperCase tabla s =
     (if list_all (\<lambda>u. u < 0x100) s then concat (map mayus_latin1 s) else tabla s)"

text \<open>A table for concrete runs: it leaves strings beyond Latin-1 as they are.\<close>

definition sin_tabla :: "jsstring \<Rightarrow> jsstring" where
  "sin_tabla s = s"

subsection \<open>\<open>String.prototype.trim\<close> and the regular expression\<close>

text \<open>
  \<open>trim\<close> strips WhiteSpace and LineTerminator code points from both ends, so
  \<open>input.trim() === ""\<close> holds exactly when every code unit of \<open>input\<close> is one
  of them.
\<close>

definition es_blanco :: "unidad \<Rightarrow> bool" where
  "es_blanco u =
     ((0x09 \<le> u \<and> u \<le> 0x0D) \<or> u = 0x20 \<or> u = 0xA0 \<or> u = 0x1680
      \<or> (0x2000 \<le> u \<and> u \<le> 0x200A) \<or> u = 0x2028 \<or> u = 0x2029
      \<or> u = 0x202F \<or> u = 0x205F \<or> u = 0x3000 \<or> u = 0xFEFF)"

definition trim_vacio :: "jsstring \<Rightarrow> bool" where
  "trim_vacio input = list_all es_blanco input"

text \<open>
  The character class of \<open>validarInput\<close>: \<open>a-z\<close>, \<open>A-Z\<close>, n with tilde
  (U+00F1, U+00D1) and the five vowels with acute accent in both cases; the source file
  stores the twelve non-ASCII letters precomposed, one code unit each.
\<close>

definition en_alfabeto :: "unidad \<Rightarrow> bool" where
  "en_alfabeto u =
     ((0x61 \<le> u \<and> u \<le> 0x7A) \<or> (0x41 \<le> u \<and> u \<le> 0x5A)
      \<or> u = 0xF1 \<or> u = 0xD1
      \<or> u = 0xE1 \<or> u = 0xE9 \<or> u = 0xED \<or> u = 0xF3 \<or> u = 0xFA
      \<or> u = 0xC1 \<or> u = 0xC9 \<or> u = 0xCD \<or> u = 0xD3 \<or> u = 0xDA)"

text \<open>\<open>/^[...]$/.test(input)\<close>: the whole input is one code unit of the class.\<close>

definition regex_letra :: "jsstring \<Rightarrow> bool" where
  "regex_letra input = (case input of [u] \<Rightarrow> en_alfabeto u | _ \<Rightarrow> False)"

section \<open>funciones.js\<close>

subsection \<open>\<open>cargarPalabras\<close>\<close>

text \<open>
  What \<open>fetch\<close> and \<open>response.json()\<close> can deliver: the request is rejected, or
  a response arrives with its \<open>ok\<close> flag and a body. The body does not parse, or it
  parses to \<open>null\<close>, or it parses to some other value, whose \<open>words\<close> property is
  missing or \<open>null\<close> (\<open>None\<close>) or a list of entries, each with its string
  \<open>item\<close> as the word lists have it. Reading \<open>words\<close> of \<open>null\<close> throws a
  TypeError; of any other value without that property it gives \<open>undefined\<close>.
\<close>

record entrada =
  item :: jsstring

datatype cuerpo = JsonInvalido | JsonNulo | Documento "entrada list option"

datatype respuesta = FetchRechazado | Respuesta bool cuerpo

datatype error = ErrorCarga | ErrorFetch | ErrorSintaxis | TypeError

definition cargarPalabras :: "respuesta \<Rightarrow> error + entrada list option" where
  "cargarPalabras r =
     (case r of
        FetchRechazado \<Rightarrow> Inl ErrorFetch
      | Respuesta ok c \<Rightarrow>
          if \<not> ok then Inl ErrorCarga
          else (case c of
                  JsonInvalido \<Rightarrow> Inl ErrorSintaxis
                | JsonNulo \<Rightarrow> Inl TypeError
                | Documento ws \<Rightarrow> Inr ws))"

subsection \<open>Numbers: \<open>Math.random\<close>, the product and \<open>Math.floor\<close>\<close>

text \<open>
  A number is written \<open>mantisa / 2 ^ exponente\<close>. Every double from 0 up to but
  not including 1 is such a number with a mantissa below \<open>2 ^ 53\<close> and an exponent of
  at most 1074 (the subnormals' scale), and every such number below 1 is a double:
  these are the values \<open>Math.random()\<close> can return.
\<close>

record doble =
  mantisa :: nat
  exponente :: nat

definition aleatorio :: "doble \<Rightarrow> bool" where
  "aleatorio d =
     (mantisa d < 2 ^ 53 \<and> exponente d \<le> 1074 \<and> mantisa d < 2 ^ exponente d)"

text \<open>The number of binary digits of a natural number.\<close>

fun bits :: "nat \<Rightarrow> nat" where
  "bits n = (if n = 0 then 0 else Suc (bits (n div 2)))"

declare bits.simps [simp del]

text \<open>
  Rounding to 53 significant binary digits, to nearest and on a tie to the even
  neighbour, as the double product does. The argument and the result are numerators
  over the same power of two.
\<close>

definition redondear :: "nat \<Rightarrow> nat" where
  "redondear n =
     (if bits n \<le> 53 then n
      else
        (let s = bits n - 53;
             q = n div 2 ^ s;
             resto = n mod 2 ^ s;
             mitad = 2 ^ (s - 1)
         in (if resto < mitad then q
             else if mitad < resto then q + 1
             else if even q then q
             else q + 1) * 2 ^ s))"

text \<open>
  The product of a double and the length of an array. The length is below \<open>2 ^ 32\<close>
  and so a double itself; the exact product has the numerator \<open>mantisa d * n\<close> over
  the scale of \<open>d\<close>, and the double product is that, rounded: a numerator of at
  most 53 significant digits over a scale of at most 1074, so a double.
\<close>

definition por_longitud :: "doble \<Rightarrow> nat \<Rightarrow> doble" where
  "por_longitud d n = \<lparr>mantisa = redondear (mantisa d * n), exponente = exponente d\<rparr>"

definition Math_floor :: "doble \<Rightarrow> nat" where
  "Math_floor d = mantisa d div 2 ^ exponente d"

subsection \<open>\<open>obtenerPalabraAleatoria\<close>\<close>

text \<open>
  \<open>azar\<close> is the value of \<open>Math.random()\<close>. Reading \<open>length\<close> of \<open>undefined\<close>
  and reading \<open>item\<close> of an element that is not there both throw a TypeError.
\<close>

definition obtenerPalabraAleatoria ::
  "(jsstring \<Rightarrow> jsstring) \<Rightarrow> doble \<Rightarrow> entrada list option \<Rightarrow> error + jsstring" where
  "obtenerPalabraAleatoria tabla azar ws =
     (case ws of
        None \<Rightarrow> Inl TypeError
      | Some palabras \<Rightarrow>
          (let indiceAleatorio = Math_floor (por_longitud azar (length palabras))
           in if indiceAleatorio < length palabras
              then Inr (toUpperCase tabla (item (palabras ! indiceAleatorio)))
              else Inl TypeError))"

subsection \<open>\<open>crearGuiones\<close>\<close>

definition crearGuiones :: "jsstring \<Rightarrow> arreglo" where
  "crearGuiones palabra = replicate (length palabra) (Some guion)"

subsection \<open>\<open>validarInput\<close>\<close>

record validacion =
  valido :: bool
  mensaje :: string

definition validarInput :: "jsstring \<Rightarrow> validacion" where
  "validarInput input =
     (if input = [] \<or> trim_vacio input
        then \<lparr>valido = False, mensaje = ''Por favor, introduce una letra''\<rparr>
      else if length input > 1
        then \<lparr>valido = False, mensaje = ''Solo puedes introducir una letra''\<rparr>
      else if \<not> regex_letra input
        then \<lparr>valido = False, mensaje = ''Solo se permiten letras''\<rparr>
      else \<lparr>valido = True, mensaje = ''''\<rparr>)"

subsection \<open>\<open>comprobarLetra\<close>\<close>

text \<open>The \<open>for\<close> loop, with the index \<open>i\<close> and the array \<open>indices\<close> built so far.\<close>

function comprobarLetra_bucle :: "jsstring \<Rightarrow> jsstring \<Rightarrow> nat \<Rightarrow> nat list \<Rightarrow> nat list" where
  "comprobarLetra_bucle letraMayuscula palabraSecreta i indices =
     (if i < length palabraSecreta
      then comprobarLetra_bucle letraMayuscula palabraSecreta (i + 1)
             (if [palabraSecreta ! i] = letraMayuscula then indices @ [i] else indices)
      else indices)"
  by pat_completeness auto
termination
  by (relation "measure (\<lambda>(l, p, i, a). length p - i)") auto

declare comprobarLetra_bucle.simps [simp del]

definition comprobarLetra :: "(jsstring \<Rightarrow> jsstring) \<Rightarrow> jsstring \<Rightarrow> jsstring \<Rightarrow> nat list" where
  "comprobarLetra tabla letra palabraSecreta =
     comprobarLetra_bucle (toUpperCase tabla letra) palabraSecreta 0 []"

subsection \<open>\<open>revelarLetras\<close>\<close>

text \<open>
  Writing a JavaScript array at an index from its length on extends it, leaving holes
  in between. Reading at an index that is not there gives \<open>undefined\<close>.
\<close>

definition asignar :: "arreglo \<Rightarrow> nat \<Rightarrow> jsstring \<Rightarrow> arreglo" where
  "asignar a i v =
     (if i < length a then a[i := Some v]
      else a @ replicate (i - length a) None @ [Some v])"

definition leer :: "arreglo \<Rightarrow> nat \<Rightarrow> jsstring option" where
  "leer a i = (if i < length a then a ! i else None)"

definition revelarLetras ::
  "(jsstring \<Rightarrow> jsstring) \<Rightarrow> arreglo \<Rightarrow> jsstring \<Rightarrow> nat list \<Rightarrow> arreglo" where
  "revelarLetras tabla letrasDescubiertas letra indices =
     fold (\<lambda>indice nuevoArray. asignar nuevoArray indice (toUpperCase tabla letra))
       indices letrasDescubiertas"

text \<open>
  The same function over a store of arrays, to speak about the array it is given and
  the one it returns: an address is an index into the store, \<open>[...a]\<close> allocates the
  copy at the next free address, and the loop writes to that address only. \<open>None\<close>
  stands for an address that holds no array.
\<close>

type_synonym memoria = "arreglo list"

definition revelarLetras_mem ::
  "(jsstring \<Rightarrow> jsstring) \<Rightarrow> memoria \<Rightarrow> nat \<Rightarrow> jsstring \<Rightarrow> nat list \<Rightarrow> (nat \<times> memoria) option" where
  "revelarLetras_mem tabla m p letra indices =
     (if p < length m
      then (let q = length m;
                m1 = m @ [m ! p]
            in Some (q, fold (\<lambda>indice mm. mm[q := asignar (mm ! q) indice (toUpperCase tabla letra)])
                          indices m1))
      else None)"

subsection \<open>\<open>comprobarVictoria\<close>\<close>

definition comprobarVictoria :: "arreglo \<Rightarrow> bool" where
  "comprobarVictoria letrasDescubiertas = (\<not> List.member letrasDescubiertas (Some guion))"

section \<open>app.js\<close>

text \<open>
  The module's variables, and of the page the class list of the element
  \<open>result-message\<close>, which is where \<open>finalizarJuego\<close> tells a victory (\<open>win\<close>)
  from a defeat (\<open>lose\<close>). The other writes to the page (texts, the image, the
  input box, enabling of controls) read nothing back into the game and are left out;
  the elements are taken to exist, so those writes do not throw.

  The file holds the module twice. The functions below follow the first copy, the one
  with themes; the second copy is the same code without \<open>currentTheme\<close> and
  \<open>letrasIncorrectas\<close>.
\<close>

record juego =
  palabraSecreta :: jsstring
  letrasDescubiertas :: arreglo
  intentosFallidos :: nat
  juegoTerminado :: bool
  letrasUsadas :: "jsstring set"
  currentTheme :: jsstring
  letrasIncorrectas :: "jsstring list"
  resultMessage :: "string set"

definition MAX_INTENTOS :: nat where
  "MAX_INTENTOS = 8"

text \<open>
  The values the module's variables are declared with. The page's markup is not among
  the sources; the class list starts empty here, and no theorem below depends on it.
\<close>

definition estado_inicial :: juego where
  "estado_inicial =
     \<lparr>palabraSecreta = [], letrasDescubiertas = [], intentosFallidos = 0,
      juegoTerminado = False, letrasUsadas = {}, currentTheme = lit ''general'',
      letrasIncorrectas = [], resultMessage = {}\<rparr>"

definition mostrarError :: "juego \<Rightarrow> juego" where
  "mostrarError s = s\<lparr>resultMessage := resultMessage s - {''win'', ''lose'', ''hidden''}\<rparr>"

definition finalizarJuego :: "bool \<Rightarrow> juego \<Rightarrow> juego" where
  "finalizarJuego victoria s =
     (let s1 = s\<lparr>juegoTerminado := True\<rparr>
      in if victoria
         then s1\<lparr>resultMessage := insert ''win'' (resultMessage s1 - {''lose'', ''hidden''})\<rparr>
         else s1\<lparr>letrasDescubiertas := map (\<lambda>u. Some [u]) (palabraSecreta s1),
                 resultMessage := insert ''lose'' (resultMessage s1 - {''win'', ''hidden''})\<rparr>)"

text \<open>
  \<open>inicializarJuego\<close> with the requested theme, what the fetch delivers and the
  value of \<open>Math.random()\<close>. The first component is the error the \<open>catch\<close> block
  logs, if any. The choice of the file from the theme is part of the fetch.
\<close>

definition inicializarJuego ::
  "(jsstring \<Rightarrow> jsstring) \<Rightarrow> jsstring \<Rightarrow> respuesta \<Rightarrow> doble \<Rightarrow> juego \<Rightarrow> error option \<times> juego" where
  "inicializarJuego tabla theme r azar s =
     (let s1 = s\<lparr>currentTheme := theme\<rparr>
      in case cargarPalabras r of
           Inl e \<Rightarrow> (Some e, mostrarError s1)
         | Inr palabras \<Rightarrow>
             (case obtenerPalabraAleatoria tabla azar palabras of
                Inl e \<Rightarrow> (Some e, mostrarError s1)
              | Inr palabra \<Rightarrow>
                  (None,
                   s1\<lparr>palabraSecreta := palabra,
                      letrasDescubiertas := crearGuiones palabra,
                      intentosFallidos := 0,
                      juegoTerminado := False,
                      letrasUsadas := {},
                      letrasIncorrectas := [],
                      resultMessage := insert ''hidden'' (resultMessage s1)\<rparr>)))"

text \<open>
  \<open>procesarLetra\<close> with the text of the input box. The first component is the
  message passed to \<open>alert\<close>, if any.
\<close>

definition procesarLetra ::
  "(jsstring \<Rightarrow> jsstring) \<Rightarrow> jsstring \<Rightarrow> juego \<Rightarrow> string option \<times> juego" where
  "procesarLetra tabla letra s =
     (if juegoTerminado s then (None, s)
      else if \<not> valido (validarInput letra) then (Some (mensaje (validarInput letra)), s)
      else
        (let letraMayuscula = toUpperCase tabla letra
         in if letraMayuscula \<in> letrasUsadas s
            then (Some ''Ya has usado esta letra. Intenta con otra.'', s)
            else
              (let s1 = s\<lparr>letrasUsadas := insert letraMayuscula (letrasUsadas s)\<rparr>;
                   indices = comprobarLetra tabla letra (palabraSecreta s1)
               in if length indices > 0
                  then
                    (let s2 = s1\<lparr>letrasDescubiertas :=
                                  revelarLetras tabla (letrasDescubiertas s1) letra indices\<rparr>
                     in (None,
                         if comprobarVictoria (letrasDescubiertas s2)
                         then finalizarJuego True s2 else s2))
                  else
                    (let s2 = s1\<lparr>intentosFallidos := intentosFallidos s1 + 1,
                                letrasIncorrectas := letrasIncorrectas s1 @ [letraMayuscula]\<rparr>
                     in (None,
                         if intentosFallidos s2 \<ge> MAX_INTENTOS
                         then finalizarJuego False s2 else s2)))))"

text \<open>A round: the texts submitted one after the other.\<close>

fun jugar :: "(jsstring \<Rightarrow> jsstring) \<Rightarrow> jsstring list \<Rightarrow> juego \<Rightarrow> juego" where
  "jugar tabla [] s = s"
| "jugar tabla (letra # letras) s = jugar tabla letras (snd (procesarLetra tabla letra s))"

text \<open>What the page shows once the round is over.\<close>

definition ganado :: "juego \<Rightarrow> bool" where
  "ganado s = (juegoTerminado s \<and> ''win'' \<in> resultMessage s)"

definition perdido :: "juego \<Rightarrow> bool" where
  "perdido s = (juegoTerminado s \<and> ''lose'' \<in> resultMessage s)"

section \<open>Rounds\<close>

text \<open>
  A call of \<open>procesarLetra\<close> gets past its three early returns when the round is
  not over, the text is a valid letter and its upper case has not been used.
\<close>

definition aceptada :: "(jsstring \<Rightarrow> jsstring) \<Rightarrow> jsstring \<Rightarrow> juego \<Rightarrow> bool" where
  "aceptada tabla letra s =
     (\<not> juegoTerminado s \<and> valido (validarInput letra)
      \<and> toUpperCase tabla letra \<notin> letrasUsadas s)"

text \<open>
  While a round is open, each cell shows the letter of the secret word at its position
  if that letter has been used, and the placeholder otherwise.
\<close>

definition celdas_ok :: "juego \<Rightarrow> bool" where
  "celdas_ok s =
     (\<forall>i<length (palabraSecreta s).
        letrasDescubiertas s ! i =
          Some (if [palabraSecreta s ! i] \<in> letrasUsadas s
                then [palabraSecreta s ! i] else guion))"

definition invariante :: "juego \<Rightarrow> bool" where
  "invariante s =
     (length (letrasDescubiertas s) = length (palabraSecreta s)
      \<and> intentosFallidos s \<le> MAX_INTENTOS
      \<and> (perdido s \<longleftrightarrow> intentosFallidos s = MAX_INTENTOS)
      \<and> (\<not> juegoTerminado s \<longrightarrow> celdas_ok s)
      \<and> (juegoTerminado s \<longrightarrow> ganado s \<or> perdido s)
      \<and> (ganado s \<longrightarrow> comprobarVictoria (letrasDescubiertas s))
      \<and> \<not> (ganado s \<and> perdido s))"

subsection \<open>A concrete round\<close>

text \<open>
  The word list holds the single word \<open>sol\<close>; the round starts from the module's
  initial state. Seven letters that are not in the word, and an eighth. The random
  numbers are 0, three quarters, and the double nearest to two thirds.
\<close>

definition cero :: doble where
  "cero = \<lparr>mantisa = 0, exponente = 0\<rparr>"

definition tres_cuartos :: doble where
  "tres_cuartos = \<lparr>mantisa = 3, exponente = 2\<rparr>"

definition dos_tercios :: doble where
  "dos_tercios = \<lparr>mantisa = 6004799503160661, exponente = 53\<rparr>"

definition corpus_sol :: respuesta where
  "corpus_sol = Respuesta True (Documento (Some [\<lparr>item = lit ''sol''\<rparr>]))"

definition ronda_sol :: juego where
  "ronda_sol = snd (inicializarJuego sin_tabla (lit ''general'') corpus_sol cero estado_inicial)"

definition siete_fallos :: "jsstring list" where
  "siete_fallos = [lit ''a'', lit ''b'', lit ''c'', lit ''d'', lit ''e'', lit ''f'', lit ''g'']"

definition sol_7 :: juego where
  "sol_7 = jugar sin_tabla siete_fallos ronda_sol"

text \<open>A second word list, with a word in which a letter occurs twice.\<close>

definition corpus_casa :: respuesta where
  "corpus_casa = Respuesta True (Documento (Some [\<lparr>item = lit ''sol''\<rparr>, \<lparr>item = lit ''casa''\<rparr>]))"

definition tres_palabras :: "entrada list" where
  "tres_palabras = [\<lparr>item = lit ''sol''\<rparr>, \<lparr>item = lit ''casa''\<rparr>, \<lparr>item = lit ''luna''\<rparr>]"

definition ronda_casa :: juego where
  "ronda_casa =
     snd (inicializarJuego sin_tabla (lit ''general'') corpus_casa tres_cuartos estado_inicial)"

section \<open>Properties of the functions\<close>

subsection \<open>The accepted alphabet and its upper case\<close>

lemma alfabeto_no_blanco: "en_alfabeto u \<Longrightarrow> \<not> es_blanco u"
  unfolding en_alfabeto_def es_blanco_def word_le_nat_alt word_unat_eq_iff
  by (simp; arith)

lemma alfabeto_latin1: "en_alfabeto u \<Longrightarrow> u < 0x100"
  unfolding en_alfabeto_def word_le_nat_alt word_less_nat_alt word_unat_eq_iff
  by (simp; arith)

lemma alfabeto_excluye:
  "en_alfabeto u \<Longrightarrow> u \<noteq> 0x5F \<and> u \<noteq> 0x7F \<and> u \<noteq> 0xB5 \<and> u \<noteq> 0xDF \<and> u \<noteq> 0xFF"
  unfolding en_alfabeto_def word_le_nat_alt word_unat_eq_iff
  by (simp; arith)

lemma mayus_alfabeto:
  assumes "en_alfabeto u"
  shows "\<exists>v. mayus_latin1 u = [v] \<and> v \<noteq> 0x5F"
proof -
  from alfabeto_excluye [OF assms]
  have n: "u \<noteq> 0x5F" "u \<noteq> 0x7F" "u \<noteq> 0xB5" "u \<noteq> 0xDF" "u \<noteq> 0xFF"
    by simp_all
  have "u - 0x20 \<noteq> 0x5F"
    using n(2) by (simp add: diff_eq_eq)
  with n show ?thesis
    by (simp add: mayus_latin1_def)
qed

lemma valido_letra:
  assumes "valido (validarInput letra)"
  obtains u where "letra = [u]" and "en_alfabeto u"
  using assms
  by (cases letra; cases "tl letra")
     (auto simp: validarInput_def regex_letra_def split: if_splits list.splits)

lemma toUpperCase_letra:
  assumes "valido (validarInput letra)"
  shows "\<exists>v. toUpperCase tabla letra = [v] \<and> v \<noteq> 0x5F"
proof -
  from assms obtain u where u: "letra = [u]" "en_alfabeto u"
    by (rule valido_letra)
  from mayus_alfabeto [OF u(2)] alfabeto_latin1 [OF u(2)] u(1) show ?thesis
    by (simp add: toUpperCase_def)
qed

subsection \<open>The random index\<close>

lemma bits_cotas: "n \<noteq> 0 \<Longrightarrow> 2 ^ (bits n - 1) \<le> n \<and> n < 2 ^ bits n"
proof (induction n rule: bits.induct)
  case (1 n)
  show ?case
  proof (cases "n div 2 = 0")
    case True
    with 1 have "n = 1" by (simp add: div_eq_0_iff) 
    then show ?thesis
      by (simp add: bits.simps [of "Suc 0"] bits.simps [of 0])
  next
    case False
    with 1 have ih: "2 ^ (bits (n div 2) - 1) \<le> n div 2" "n div 2 < 2 ^ bits (n div 2)"
      by simp_all
    from False have pos: "0 < bits (n div 2)"
      by (simp add: bits.simps [of "n div 2"])
    have b: "bits n = Suc (bits (n div 2))"
      using 1(2) by (simp add: bits.simps [of n])
    from pos have "(2::nat) ^ bits (n div 2) = 2 * 2 ^ (bits (n div 2) - 1)"
      by (cases "bits (n div 2)") simp_all
    with ih show ?thesis
      by (simp add: b) linarith
  qed
qed

lemma redondear_menor:
  assumes cota: "n * 2 ^ 53 + t \<le> t * 2 ^ 53" and lt: "n < t"
  shows "redondear n < t"
proof (cases "bits n \<le> 53")
  case True
  with lt show ?thesis by (simp add: redondear_def)
next
  case False
  define s where "s = bits n - 53"
  define q where "q = n div 2 ^ s"
  define resto where "resto = n mod 2 ^ s"
  define mitad where "mitad = (2::nat) ^ (s - 1)"
  from False have s: "0 < s" and bs: "bits n = s + 53"
    by (simp_all add: s_def)
  have n: "n = q * 2 ^ s + resto"
    unfolding q_def resto_def by (rule div_mult_mod_eq [symmetric])
  have dos: "(2::nat) ^ s = 2 * mitad"
    using s by (cases s) (simp_all add: mitad_def)
  have "n \<noteq> 0"
  proof
    assume "n = 0"
    then have "bits n = 0" by (simp add: bits.simps [of 0])
    with False show False by simp
  qed
  from bits_cotas [OF this] have "2 ^ (bits n - 1) \<le> n"
    by simp
  moreover have "bits n - 1 = (s - 1) + 53"
    using s bs by simp
  then have "(2::nat) ^ (bits n - 1) = mitad * 2 ^ 53"
    by (simp only: power_add mitad_def)
  ultimately have grande: "mitad * 2 ^ 53 \<le> n"
    by simp
  have arriba: "(q + 1) * 2 ^ s < t" if r: "mitad \<le> resto"
  proof (rule ccontr)
    assume "\<not> (q + 1) * 2 ^ s < t"
    then have "t \<le> q * 2 ^ s + 2 * mitad"
      by (simp add: dos algebra_simps)
    with r n have "t \<le> n + mitad"
      by linarith
    then have "t * 2 ^ 53 \<le> n * 2 ^ 53 + mitad * 2 ^ 53"
      by (metis add_mult_distrib mult_le_mono1)
    with cota have "t \<le> mitad * 2 ^ 53"
      by linarith
    with grande lt show False
      by linarith
  qed
  have abajo: "q * 2 ^ s < t"
    using n lt by linarith
  have "redondear n =
      (if resto < mitad then q else if mitad < resto then q + 1
       else if even q then q else q + 1) * 2 ^ s"
    using False by (simp add: redondear_def Let_def s_def q_def resto_def mitad_def)
  with arriba abajo show ?thesis
    by (auto simp: not_less)
qed

lemma aleatorio_cota:
  assumes "aleatorio d"
  shows "mantisa d * 2 ^ 53 + 2 ^ exponente d \<le> 2 ^ exponente d * 2 ^ 53"
proof -
  define m where "m = mantisa d"
  define k where "k = exponente d"
  define P where "P = (2::nat) ^ 53"
  define K where "K = (2::nat) ^ k"
  from assms have m: "m < P" "m < K"
    by (simp_all add: aleatorio_def m_def k_def P_def K_def)
  have "m * P + K \<le> K * P"
  proof (cases "K \<le> P")
    case True
    from m(2) have "Suc m \<le> K" by simp
    then have "Suc m * P \<le> K * P" by (rule mult_le_mono1)
    with True show ?thesis by simp
  next
    case False
    from m(1) have "Suc m \<le> P" by simp
    then have "K * Suc m \<le> K * P" by (rule mult_le_mono2)
    then have 1: "K * m + K \<le> K * P" by simp
    from False have "P \<le> K" by simp
    then have "m * P \<le> m * K" by (rule mult_le_mono2)
    then have 2: "m * P \<le> K * m" by (simp only: mult.commute)
    from 1 2 show ?thesis by linarith
  qed
  then show ?thesis
    by (simp add: m_def k_def P_def K_def)
qed

lemma indice_en_rango:
  assumes a: "aleatorio d" and n: "0 < n"
  shows "Math_floor (por_longitud d n) < n"
proof -
  let ?K = "(2::nat) ^ exponente d"
  from aleatorio_cota [OF a]
  have "(mantisa d * 2 ^ 53 + ?K) * n \<le> (?K * 2 ^ 53) * n"
    by (rule mult_le_mono1)
  then have c: "(mantisa d * n) * 2 ^ 53 + n * ?K \<le> (n * ?K) * 2 ^ 53"
    by (simp add: algebra_simps)
  from a have "mantisa d < ?K"
    by (simp add: aleatorio_def)
  with n have l: "mantisa d * n < n * ?K"
    by (simp add: mult.commute)
  from redondear_menor [OF c l] have "redondear (mantisa d * n) < n * ?K" .
  then show ?thesis
    by (simp add: Math_floor_def por_longitud_def less_mult_imp_div_less)
qed

subsection \<open>The loop of \<open>comprobarLetra\<close>\<close>

lemma comprobarLetra_bucle_filter:
  "comprobarLetra_bucle L p i acc = acc @ filter (\<lambda>j. [p ! j] = L) [i..<length p]"
proof (induction L p i acc rule: comprobarLetra_bucle.induct)
  case (1 L p i acc)
  show ?case
  proof (cases "i < length p")
    case True
    then have "[i..<length p] = i # [Suc i..<length p]"
      by (simp add: upt_conv_Cons)
    with True 1 show ?thesis
      by (subst comprobarLetra_bucle.simps) simp
  next
    case False
    then show ?thesis
      by (subst comprobarLetra_bucle.simps) simp
  qed
qed

lemma comprobarLetra_filter:
  "comprobarLetra tabla letra p =
     filter (\<lambda>j. [p ! j] = toUpperCase tabla letra) [0..<length p]"
  by (simp add: comprobarLetra_def comprobarLetra_bucle_filter)

lemma set_comprobarLetra:
  "set (comprobarLetra tabla letra p) =
     {j. j < length p \<and> [p ! j] = toUpperCase tabla letra}"
  by (auto simp: comprobarLetra_filter)

lemma comprobarLetra_en_rango:
  "list_all (\<lambda>j. j < length p) (comprobarLetra tabla letra p)"
  by (simp add: list_all_iff set_comprobarLetra)

subsection \<open>Array writes\<close>

lemma leer_asignar: "leer (asignar a j v) i = (if i = j then Some v else leer a i)"
  by (auto simp: leer_def asignar_def nth_append)

lemma length_asignar: "length (asignar a j v) = max (length a) (Suc j)"
  by (auto simp: asignar_def)

lemma leer_revelarLetras:
  "leer (revelarLetras tabla a letra indices) i =
     (if i \<in> set indices then Some (toUpperCase tabla letra) else leer a i)"
  unfolding revelarLetras_def
proof (induction indices arbitrary: a rule: rev_induct)
  case Nil
  show ?case by simp
next
  case (snoc j js)
  then show ?case by (simp add: leer_asignar)
qed

lemma length_revelarLetras:
  "list_all (\<lambda>j. j < length a) indices \<Longrightarrow>
   length (revelarLetras tabla a letra indices) = length a"
  unfolding revelarLetras_def
proof (induction indices arbitrary: a)
  case Nil
  show ?case by simp
next
  case (Cons j js)
  from Cons.prems have j: "j < length a" and js: "list_all (\<lambda>k. k < length a) js"
    by simp_all
  have len: "length (asignar a j (toUpperCase tabla letra)) = length a"
    using j by (simp add: asignar_def)
  from js have "list_all (\<lambda>k. k < length (asignar a j (toUpperCase tabla letra))) js"
    by (simp only: len)
  from Cons.IH [OF this] show ?case
    by (simp add: len)
qed

lemma nth_revelarLetras:
  assumes "list_all (\<lambda>j. j < length a) indices" "i < length a"
  shows "revelarLetras tabla a letra indices ! i =
     (if i \<in> set indices then Some (toUpperCase tabla letra) else a ! i)"
  using leer_revelarLetras [of tabla a letra indices i] assms
  by (simp add: leer_def length_revelarLetras)

lemma fold_mem:
  "fold (\<lambda>indice mm. mm[length m := asignar (mm ! length m) indice v]) indices (m @ [a]) =
     m @ [fold (\<lambda>indice nuevoArray. asignar nuevoArray indice v) indices a]"
  by (induction indices arbitrary: a) simp_all

lemma revelarLetras_mem_eq:
  "p < length m \<Longrightarrow>
   revelarLetras_mem tabla m p letra indices =
     Some (length m, m @ [revelarLetras tabla (m ! p) letra indices])"
  by (simp add: revelarLetras_mem_def revelarLetras_def fold_mem Let_def)

subsection \<open>One call of \<open>procesarLetra\<close>\<close>

lemma procesarLetra_rechazada:
  "\<not> aceptada tabla letra s \<Longrightarrow> snd (procesarLetra tabla letra s) = s"
  by (auto simp: procesarLetra_def aceptada_def Let_def)

lemma procesarLetra_acierto:
  assumes "aceptada tabla letra s" "comprobarLetra tabla letra (palabraSecreta s) \<noteq> []"
  defines "s' \<equiv> snd (procesarLetra tabla letra s)"
  shows "fst (procesarLetra tabla letra s) = None"
    and "palabraSecreta s' = palabraSecreta s"
    and "letrasDescubiertas s' =
           revelarLetras tabla (letrasDescubiertas s) letra
             (comprobarLetra tabla letra (palabraSecreta s))"
    and "intentosFallidos s' = intentosFallidos s"
    and "letrasUsadas s' = insert (toUpperCase tabla letra) (letrasUsadas s)"
    and "juegoTerminado s' = comprobarVictoria (letrasDescubiertas s')"
    and "resultMessage s' =
           (if comprobarVictoria (letrasDescubiertas s')
            then insert ''win'' (resultMessage s - {''lose'', ''hidden''})
            else resultMessage s)"
    and "currentTheme s' = currentTheme s"
  using assms(1,2) unfolding s'_def
  by (simp_all add: procesarLetra_def aceptada_def Let_def finalizarJuego_def)

lemma procesarLetra_fallo:
  assumes "aceptada tabla letra s" "comprobarLetra tabla letra (palabraSecreta s) = []"
  defines "s' \<equiv> snd (procesarLetra tabla letra s)"
  shows "fst (procesarLetra tabla letra s) = None"
    and "palabraSecreta s' = palabraSecreta s"
    and "letrasDescubiertas s' =
           (if MAX_INTENTOS \<le> intentosFallidos s + 1
            then map (\<lambda>u. Some [u]) (palabraSecreta s)
            else letrasDescubiertas s)"
    and "intentosFallidos s' = intentosFallidos s + 1"
    and "letrasUsadas s' = insert (toUpperCase tabla letra) (letrasUsadas s)"
    and "juegoTerminado s' = (MAX_INTENTOS \<le> intentosFallidos s + 1)"
    and "resultMessage s' =
           (if MAX_INTENTOS \<le> intentosFallidos s + 1
            then insert ''lose'' (resultMessage s - {''win'', ''hidden''})
            else resultMessage s)"
    and "currentTheme s' = currentTheme s"
  using assms(1,2) unfolding s'_def
  by (simp_all add: procesarLetra_def aceptada_def Let_def finalizarJuego_def)

lemma palabraSecreta_procesarLetra:
  "palabraSecreta (snd (procesarLetra tabla letra s)) = palabraSecreta s"
  by (simp add: procesarLetra_def Let_def finalizarJuego_def)

lemma palabraSecreta_jugar: "palabraSecreta (jugar tabla letras s) = palabraSecreta s"
  by (induction letras arbitrary: s) (simp_all add: palabraSecreta_procesarLetra)

lemma letrasUsadas_procesarLetra:
  "letrasUsadas s \<subseteq> letrasUsadas (snd (procesarLetra tabla letra s))"
  by (auto simp: procesarLetra_def Let_def finalizarJuego_def)

lemma letrasUsadas_jugar: "letrasUsadas s \<subseteq> letrasUsadas (jugar tabla letras s)"
proof (induction letras arbitrary: s)
  case Nil
  show ?case by simp
next
  case (Cons l ls)
  have "letrasUsadas s \<subseteq> letrasUsadas (snd (procesarLetra tabla l s))"
    by (rule letrasUsadas_procesarLetra)
  also have "\<dots> \<subseteq> letrasUsadas (jugar tabla ls (snd (procesarLetra tabla l s)))"
    by (rule Cons.IH)
  finally show ?case by simp
qed

subsection \<open>The invariant of a round\<close>

lemma inicializarJuego_exito:
  assumes "inicializarJuego tabla theme r azar s = (None, s0)"
  shows "\<exists>palabra. s0 = s\<lparr>currentTheme := theme, palabraSecreta := palabra,
                      letrasDescubiertas := crearGuiones palabra,
                      intentosFallidos := 0, juegoTerminado := False,
                      letrasUsadas := {}, letrasIncorrectas := [],
                      resultMessage := insert ''hidden'' (resultMessage s)\<rparr>"
  using assms
  by (auto simp: inicializarJuego_def Let_def split: sum.splits)

lemma invariante_inicio:
  assumes "inicializarJuego tabla theme r azar s = (None, s0)"
  shows "invariante s0" and "\<not> juegoTerminado s0"
proof -
  from inicializarJuego_exito [OF assms] obtain palabra where
    s0: "s0 = s\<lparr>currentTheme := theme, palabraSecreta := palabra,
                      letrasDescubiertas := crearGuiones palabra,
                      intentosFallidos := 0, juegoTerminado := False,
                      letrasUsadas := {}, letrasIncorrectas := [],
                      resultMessage := insert ''hidden'' (resultMessage s)\<rparr>" ..
  show "invariante s0"
    by (simp add: s0 invariante_def celdas_ok_def crearGuiones_def MAX_INTENTOS_def
        ganado_def perdido_def)
  show "\<not> juegoTerminado s0"
    by (simp add: s0)
qed

lemma invariante_procesarLetra:
  assumes inv: "invariante s"
  shows "invariante (snd (procesarLetra tabla letra s))"
proof (cases "aceptada tabla letra s")
  case False
  with inv show ?thesis by (simp add: procesarLetra_rechazada)
next
  case True
  then have nt: "\<not> juegoTerminado s" and nu: "toUpperCase tabla letra \<notin> letrasUsadas s"
    by (simp_all add: aceptada_def)
  from inv nt have len: "length (letrasDescubiertas s) = length (palabraSecreta s)"
    and lt: "intentosFallidos s < MAX_INTENTOS" and cel: "celdas_ok s"
    by (auto simp: invariante_def perdido_def)
  let ?s' = "snd (procesarLetra tabla letra s)"
  let ?is = "comprobarLetra tabla letra (palabraSecreta s)"
  show ?thesis
  proof (cases "?is = []")
    case True
    note f = procesarLetra_fallo [OF \<open>aceptada tabla letra s\<close> True]
    have "celdas_ok ?s'" if "\<not> MAX_INTENTOS \<le> intentosFallidos s + 1"
      unfolding celdas_ok_def
    proof (intro allI impI)
      fix i assume "i < length (palabraSecreta ?s')"
      then have i: "i < length (palabraSecreta s)" by (simp add: f)
      have "i \<notin> set ?is" by (simp add: True)
      with i have "[palabraSecreta s ! i] \<noteq> toUpperCase tabla letra"
        by (simp add: set_comprobarLetra)
      with cel i that show "letrasDescubiertas ?s' ! i =
          Some (if [palabraSecreta ?s' ! i] \<in> letrasUsadas ?s'
                then [palabraSecreta ?s' ! i] else guion)"
        by (simp add: f celdas_ok_def)
    qed
    with len lt show ?thesis
      by (auto simp: invariante_def f ganado_def perdido_def)
  next
    case False
    note a = procesarLetra_acierto [OF \<open>aceptada tabla letra s\<close> False]
    have rango: "list_all (\<lambda>j. j < length (letrasDescubiertas s)) ?is"
      using comprobarLetra_en_rango [of "palabraSecreta s" tabla letra] by (simp add: len)
    have len': "length (letrasDescubiertas ?s') = length (palabraSecreta ?s')"
      by (simp add: a(2,3) length_revelarLetras [OF rango] len)
    have "celdas_ok ?s'"
      unfolding celdas_ok_def
    proof (intro allI impI)
      fix i assume "i < length (palabraSecreta ?s')"
      then have i: "i < length (palabraSecreta s)" by (simp add: a)
      then have i': "i < length (letrasDescubiertas s)" by (simp add: len)
      from cel i have c: "letrasDescubiertas s ! i =
          Some (if [palabraSecreta s ! i] \<in> letrasUsadas s
                then [palabraSecreta s ! i] else guion)"
        by (simp add: celdas_ok_def)
      show "letrasDescubiertas ?s' ! i =
          Some (if [palabraSecreta ?s' ! i] \<in> letrasUsadas ?s'
                then [palabraSecreta ?s' ! i] else guion)"
        using i c
        by (simp add: a(2,3,5) nth_revelarLetras [OF rango i'] set_comprobarLetra)
    qed
    with len' lt show ?thesis
      by (auto simp: invariante_def a(4,6,7) ganado_def perdido_def)
  qed
qed

lemma invariante_jugar: "invariante s \<Longrightarrow> invariante (jugar tabla letras s)"
  by (induction letras arbitrary: s) (simp_all add: invariante_procesarLetra)

subsection \<open>The concrete round\<close>

lemma ronda_sol_inicio:
  "inicializarJuego sin_tabla (lit ''general'') corpus_sol cero estado_inicial =
     (None, ronda_sol)"
  by (simp add: ronda_sol_def inicializarJuego_def corpus_sol_def cargarPalabras_def
      obtenerPalabraAleatoria_def Math_floor_def por_longitud_def cero_def redondear_def
      bits.simps)

lemma ronda_casa_inicio:
  "inicializarJuego sin_tabla (lit ''general'') corpus_casa tres_cuartos estado_inicial =
     (None, ronda_casa)"
  by (simp add: ronda_casa_def inicializarJuego_def corpus_casa_def cargarPalabras_def
      obtenerPalabraAleatoria_def Math_floor_def por_longitud_def tres_cuartos_def
      redondear_def bits.simps)

lemma ronda_sol_eq:
  "ronda_sol =
     \<lparr>palabraSecreta = lit ''SOL'', letrasDescubiertas = [Some guion, Some guion, Some guion],
      intentosFallidos = 0, juegoTerminado = False, letrasUsadas = {},
      currentTheme = lit ''general'', letrasIncorrectas = [], resultMessage = {''hidden''}\<rparr>"
  by (simp add: ronda_sol_def inicializarJuego_def corpus_sol_def cargarPalabras_def
      obtenerPalabraAleatoria_def Math_floor_def por_longitud_def cero_def redondear_def
      bits.simps estado_inicial_def crearGuiones_def toUpperCase_def mayus_latin1_def
      lit_def)

section \<open>The claims\<close>

text \<open>
  In what follows a round is \<open>jugar tabla letras s0\<close> for a state \<open>s0\<close> that a
  successful \<open>inicializarJuego\<close> returned: any texts submitted, valid or not, in any
  number. The round is won when it is over and the result message carries the class
  \<open>win\<close>, lost when it is over and the message carries \<open>lose\<close>.
\<close>

subsection \<open>C1: won, lost, and over\<close>

text \<open>
  C1 as stated does not hold: with the word \<open>SOL\<close> and seven failed attempts, the
  letter \<open>h\<close> is accepted, after the call no cell of \<open>letrasDescubiertas\<close> is a
  placeholder (the defeat has disclosed the word), and the round is not won.
\<close>

theorem ganado_sii_sin_guiones_counterexample:
  "aceptada sin_tabla (lit ''h'') sol_7
   \<and> comprobarVictoria (letrasDescubiertas (snd (procesarLetra sin_tabla (lit ''h'') sol_7)))
   \<and> \<not> ganado (snd (procesarLetra sin_tabla (lit ''h'') sol_7))"
  by code_simp

text \<open>
  C1, amended. At any point of a round and for any text submitted next: if the call is
  accepted, the round is won after it exactly when the letter occurs in the secret word
  and no cell is a placeholder after the reveal; a won round never shows a placeholder;
  the round is lost exactly when \<open>intentosFallidos\<close> is 8, which it never exceeds, so
  the eighth failed attempt is the losing one; a round is never both won and lost, and
  it is over exactly when it is one of the two; once it is over, a call changes
  nothing and alerts nothing.
\<close>

theorem estados_de_ronda:
  assumes inicio: "inicializarJuego tabla theme r azar s_prev = (None, s0)"
  shows "(aceptada tabla letra (jugar tabla letras s0) \<longrightarrow>
            (ganado (snd (procesarLetra tabla letra (jugar tabla letras s0))) \<longleftrightarrow>
               comprobarLetra tabla letra (palabraSecreta (jugar tabla letras s0)) \<noteq> []
               \<and> comprobarVictoria
                   (letrasDescubiertas (snd (procesarLetra tabla letra (jugar tabla letras s0))))))
         \<and> (ganado (snd (procesarLetra tabla letra (jugar tabla letras s0))) \<longrightarrow>
              comprobarVictoria
                (letrasDescubiertas (snd (procesarLetra tabla letra (jugar tabla letras s0)))))
         \<and> (perdido (snd (procesarLetra tabla letra (jugar tabla letras s0))) \<longleftrightarrow>
              intentosFallidos (snd (procesarLetra tabla letra (jugar tabla letras s0))) = 8)
         \<and> intentosFallidos (snd (procesarLetra tabla letra (jugar tabla letras s0))) \<le> 8
         \<and> MAX_INTENTOS = 8
         \<and> \<not> (ganado (snd (procesarLetra tabla letra (jugar tabla letras s0)))
              \<and> perdido (snd (procesarLetra tabla letra (jugar tabla letras s0))))
         \<and> (juegoTerminado (snd (procesarLetra tabla letra (jugar tabla letras s0))) \<longleftrightarrow>
              ganado (snd (procesarLetra tabla letra (jugar tabla letras s0)))
              \<or> perdido (snd (procesarLetra tabla letra (jugar tabla letras s0))))
         \<and> (juegoTerminado (jugar tabla letras s0) \<longrightarrow>
              procesarLetra tabla letra (jugar tabla letras s0) = (None, jugar tabla letras s0))"
proof -
  let ?s = "jugar tabla letras s0"
  let ?s' = "snd (procesarLetra tabla letra ?s)"
  have inv: "invariante ?s"
    using invariante_inicio(1) [OF inicio] by (rule invariante_jugar)
  then have inv': "invariante ?s'"
    by (rule invariante_procesarLetra)
  have gana: "ganado ?s' \<longleftrightarrow>
      comprobarLetra tabla letra (palabraSecreta ?s) \<noteq> []
      \<and> comprobarVictoria (letrasDescubiertas ?s')"
    if ac: "aceptada tabla letra ?s"
  proof (cases "comprobarLetra tabla letra (palabraSecreta ?s) = []")
    case True
    from procesarLetra_fallo(6,7) [OF ac True] True show ?thesis
      by (auto simp: ganado_def)
  next
    case False
    from procesarLetra_acierto(6,7) [OF ac False] False show ?thesis
      by (auto simp: ganado_def)
  qed
  have fin: "procesarLetra tabla letra ?s = (None, ?s)" if "juegoTerminado ?s"
    using that by (simp add: procesarLetra_def)
  from inv' have
    "ganado ?s' \<longrightarrow> comprobarVictoria (letrasDescubiertas ?s')"
    "perdido ?s' \<longleftrightarrow> intentosFallidos ?s' = 8"
    "intentosFallidos ?s' \<le> 8"
    "\<not> (ganado ?s' \<and> perdido ?s')"
    "juegoTerminado ?s' \<longleftrightarrow> ganado ?s' \<or> perdido ?s'"
    by (auto simp: invariante_def MAX_INTENTOS_def ganado_def perdido_def)
  with gana fin show ?thesis
    by (simp add: MAX_INTENTOS_def)
qed

text \<open>
  \<open>SOL\<close> guessed with one failed attempt on the way; \<open>SOL\<close> lost at the eighth
  failed attempt; a ninth text after the defeat.
\<close>

theorem estados_de_ronda_witness:
  "ganado (snd (procesarLetra sin_tabla (lit ''l'') (jugar sin_tabla [lit ''s'', lit ''x'', lit ''o''] ronda_sol)))
   \<and> \<not> perdido (snd (procesarLetra sin_tabla (lit ''l'') (jugar sin_tabla [lit ''s'', lit ''x'', lit ''o''] ronda_sol)))
   \<and> perdido (snd (procesarLetra sin_tabla (lit ''h'') (jugar sin_tabla siete_fallos ronda_sol)))
   \<and> procesarLetra sin_tabla (lit ''z'') (jugar sin_tabla (siete_fallos @ [lit ''h'']) ronda_sol)
       = (None, jugar sin_tabla (siete_fallos @ [lit ''h'']) ronda_sol)"
proof -
  let ?s = "jugar sin_tabla [lit ''s'', lit ''x'', lit ''o''] ronda_sol"
  let ?t = "jugar sin_tabla siete_fallos ronda_sol"
  let ?u = "jugar sin_tabla (siete_fallos @ [lit ''h'']) ronda_sol"
  have h1: "aceptada sin_tabla (lit ''l'') ?s" by code_simp
  have h2: "comprobarLetra sin_tabla (lit ''l'') (palabraSecreta ?s) \<noteq> []" by code_simp
  have h3: "comprobarVictoria (letrasDescubiertas (snd (procesarLetra sin_tabla (lit ''l'') ?s)))"
    by code_simp
  have h4: "intentosFallidos (snd (procesarLetra sin_tabla (lit ''h'') ?t)) = 8" by code_simp
  have h5: "juegoTerminado ?u" by code_simp
  from estados_de_ronda [OF ronda_sol_inicio, of "lit ''l''" "[lit ''s'', lit ''x'', lit ''o'']"]
    h1 h2 h3
  have a: "ganado (snd (procesarLetra sin_tabla (lit ''l'') ?s))
      \<and> \<not> perdido (snd (procesarLetra sin_tabla (lit ''l'') ?s))"
    by blast
  from estados_de_ronda [OF ronda_sol_inicio, of "lit ''h''" siete_fallos] h4
  have b: "perdido (snd (procesarLetra sin_tabla (lit ''h'') ?t))"
    by blast
  from estados_de_ronda [OF ronda_sol_inicio, of "lit ''z''" "siete_fallos @ [lit ''h'']"] h5
  have c: "procesarLetra sin_tabla (lit ''z'') ?u = (None, ?u)"
    by blast
  from a b c show ?thesis by blast
qed

subsection \<open>C2: the reveal state is as long as the secret word\<close>

text \<open>
  C2. In a round that \<open>inicializarJuego\<close> has started, \<open>letrasDescubiertas\<close> is as
  long as \<open>palabraSecreta\<close> right after the start (no text submitted yet) and after
  every call of \<open>procesarLetra\<close>, whatever texts are submitted and also after the call
  that ends the round; \<open>palabraSecreta\<close> is still the word the round started with.
\<close>

theorem longitud_RevealState:
  assumes "inicializarJuego tabla theme r azar s = (None, s0)"
  shows "length (letrasDescubiertas (jugar tabla letras s0)) =
           length (palabraSecreta (jugar tabla letras s0))
         \<and> palabraSecreta (jugar tabla letras s0) = palabraSecreta s0"
proof -
  have "invariante s0"
    using assms by (rule invariante_inicio)
  then have "invariante (jugar tabla letras s0)"
    by (rule invariante_jugar)
  then show ?thesis
    by (simp add: invariante_def palabraSecreta_jugar)
qed

theorem longitud_RevealState_witness:
  "length (letrasDescubiertas (jugar sin_tabla (siete_fallos @ [lit ''h'']) ronda_sol)) = 3
   \<and> length (letrasDescubiertas (jugar sin_tabla [] ronda_sol)) = 3
   \<and> length (letrasDescubiertas (jugar sin_tabla [lit ''o'', lit ''x''] ronda_sol)) = 3"
proof -
  have w: "length (palabraSecreta ronda_sol) = 3"
    by (simp add: ronda_sol_eq lit_def)
  from longitud_RevealState [OF ronda_sol_inicio, of "siete_fallos @ [lit ''h'']"]
       longitud_RevealState [OF ronda_sol_inicio, of "[]"]
       longitud_RevealState [OF ronda_sol_inicio, of "[lit ''o'', lit ''x'']"]
  show ?thesis
    by (simp add: w)
qed

subsection \<open>C3: a letter that is not in the word\<close>

text \<open>
  C3 as stated does not hold: with the word \<open>SOL\<close> and seven failed attempts, the
  letter \<open>h\<close> is accepted and occurs nowhere in the word, and the call changes
  \<open>letrasDescubiertas\<close>.
\<close>

theorem fallo_deja_RevealState_counterexample:
  "aceptada sin_tabla (lit ''h'') sol_7
   \<and> comprobarLetra sin_tabla (lit ''h'') (palabraSecreta sol_7) = []
   \<and> letrasDescubiertas (snd (procesarLetra sin_tabla (lit ''h'') sol_7)) \<noteq>
       letrasDescubiertas sol_7"
  by code_simp

text \<open>
  C3, amended. An accepted letter that occurs nowhere in the secret word adds exactly
  one to \<open>intentosFallidos\<close>; \<open>letrasDescubiertas\<close> is unchanged as long as the
  count stays below \<open>MAX_INTENTOS\<close>, and is the whole secret word when the count
  reaches it.
\<close>

theorem fallo_cuenta_un_intento:
  assumes "aceptada tabla letra s"
    and "comprobarLetra tabla letra (palabraSecreta s) = []"
  shows "intentosFallidos (snd (procesarLetra tabla letra s)) = intentosFallidos s + 1
         \<and> letrasDescubiertas (snd (procesarLetra tabla letra s)) =
             (if intentosFallidos s + 1 < MAX_INTENTOS
              then letrasDescubiertas s
              else map (\<lambda>u. Some [u]) (palabraSecreta s))"
  using procesarLetra_fallo(3,4) [OF assms]
  by (simp add: not_less [symmetric])

theorem fallo_cuenta_un_intento_witness:
  "intentosFallidos (snd (procesarLetra sin_tabla (lit ''x'') ronda_sol)) = 1
   \<and> letrasDescubiertas (snd (procesarLetra sin_tabla (lit ''x'') ronda_sol)) =
       [Some guion, Some guion, Some guion]"
proof -
  have h1: "aceptada sin_tabla (lit ''x'') ronda_sol" by code_simp
  have h2: "comprobarLetra sin_tabla (lit ''x'') (palabraSecreta ronda_sol) = []" by code_simp
  have w: "intentosFallidos ronda_sol = 0"
    "letrasDescubiertas ronda_sol = [Some guion, Some guion, Some guion]"
    by (simp_all add: ronda_sol_eq)
  from fallo_cuenta_un_intento [OF h1 h2] show ?thesis
    by (simp add: w MAX_INTENTOS_def)
qed

subsection \<open>C4: a letter that is in the word\<close>

text \<open>
  C4. At any point of a round, when an accepted letter occurs in the secret word (at
  some position \<open>k\<close>): every position of the word that holds the upper case of the
  letter showed the placeholder before the call and shows that upper-case letter, which
  is not the placeholder, after it; every other position shows what it showed before;
  the positions \<open>comprobarLetra\<close> finds are exactly those that hold the letter;
  \<open>letrasDescubiertas\<close> keeps its length and \<open>intentosFallidos\<close> its value, however
  many times the letter occurs.
\<close>

theorem acierto_revela_posiciones:
  assumes inicio: "inicializarJuego tabla theme r azar s_prev = (None, s0)"
    and ac: "aceptada tabla letra (jugar tabla letras s0)"
    and ocurre: "k < length (palabraSecreta (jugar tabla letras s0))"
      "[palabraSecreta (jugar tabla letras s0) ! k] = toUpperCase tabla letra"
  shows "(\<forall>i<length (palabraSecreta (jugar tabla letras s0)).
            if [palabraSecreta (jugar tabla letras s0) ! i] = toUpperCase tabla letra
            then letrasDescubiertas (jugar tabla letras s0) ! i = Some guion
               \<and> letrasDescubiertas (snd (procesarLetra tabla letra (jugar tabla letras s0))) ! i
                   = Some (toUpperCase tabla letra)
            else letrasDescubiertas (snd (procesarLetra tabla letra (jugar tabla letras s0))) ! i
                   = letrasDescubiertas (jugar tabla letras s0) ! i)
         \<and> toUpperCase tabla letra \<noteq> guion
         \<and> set (comprobarLetra tabla letra (palabraSecreta (jugar tabla letras s0))) =
             {i. i < length (palabraSecreta (jugar tabla letras s0))
                 \<and> [palabraSecreta (jugar tabla letras s0) ! i] = toUpperCase tabla letra}
         \<and> length (letrasDescubiertas (snd (procesarLetra tabla letra (jugar tabla letras s0))))
             = length (palabraSecreta (jugar tabla letras s0))
         \<and> intentosFallidos (snd (procesarLetra tabla letra (jugar tabla letras s0)))
             = intentosFallidos (jugar tabla letras s0)"
proof -
  let ?s = "jugar tabla letras s0"
  let ?s' = "snd (procesarLetra tabla letra ?s)"
  let ?L = "toUpperCase tabla letra"
  let ?is = "comprobarLetra tabla letra (palabraSecreta ?s)"
  have inv: "invariante ?s"
    using invariante_inicio(1) [OF inicio] by (rule invariante_jugar)
  from ac have nt: "\<not> juegoTerminado ?s" and val: "valido (validarInput letra)"
    and nu: "?L \<notin> letrasUsadas ?s"
    by (simp_all add: aceptada_def)
  from inv nt have len: "length (letrasDescubiertas ?s) = length (palabraSecreta ?s)"
    and cel: "celdas_ok ?s"
    by (simp_all add: invariante_def)
  from ocurre have "k \<in> set ?is"
    by (simp add: set_comprobarLetra)
  then have ne: "?is \<noteq> []"
    by auto
  note a = procesarLetra_acierto [OF ac ne]
  have rango: "list_all (\<lambda>j. j < length (letrasDescubiertas ?s)) ?is"
    using comprobarLetra_en_rango [of "palabraSecreta ?s" tabla letra] by (simp add: len)
  have noguion: "?L \<noteq> guion"
    using toUpperCase_letra [OF val, of tabla] by (auto simp: guion_def)
  have celdas: "\<forall>i<length (palabraSecreta ?s).
      if [palabraSecreta ?s ! i] = ?L
      then letrasDescubiertas ?s ! i = Some guion \<and> letrasDescubiertas ?s' ! i = Some ?L
      else letrasDescubiertas ?s' ! i = letrasDescubiertas ?s ! i"
  proof (intro allI impI)
    fix i assume i: "i < length (palabraSecreta ?s)"
    then have i': "i < length (letrasDescubiertas ?s)" by (simp add: len)
    from cel i have c: "letrasDescubiertas ?s ! i =
          Some (if [palabraSecreta ?s ! i] \<in> letrasUsadas ?s
                then [palabraSecreta ?s ! i] else guion)"
      by (simp add: celdas_ok_def)
    show "if [palabraSecreta ?s ! i] = ?L
      then letrasDescubiertas ?s ! i = Some guion \<and> letrasDescubiertas ?s' ! i = Some ?L
      else letrasDescubiertas ?s' ! i = letrasDescubiertas ?s ! i"
      using i c nu
      by (auto simp: a(3) nth_revelarLetras [OF rango i'] set_comprobarLetra)
  qed
  have len': "length (letrasDescubiertas ?s') = length (palabraSecreta ?s)"
    by (simp add: a(3) length_revelarLetras [OF rango] len)
  from celdas noguion len' a(4) show ?thesis
    by (simp only: set_comprobarLetra) simp
qed

text \<open>The word \<open>CASA\<close> after \<open>c\<close>: the letter \<open>a\<close> occurs at positions 1 and 3.\<close>

theorem acierto_revela_posiciones_witness:
  "letrasDescubiertas (jugar sin_tabla [lit ''c''] ronda_casa) ! 1 = Some guion
   \<and> letrasDescubiertas
        (snd (procesarLetra sin_tabla (lit ''a'') (jugar sin_tabla [lit ''c''] ronda_casa))) ! 1
       = Some (toUpperCase sin_tabla (lit ''a''))
   \<and> letrasDescubiertas (jugar sin_tabla [lit ''c''] ronda_casa) ! 3 = Some guion
   \<and> letrasDescubiertas
        (snd (procesarLetra sin_tabla (lit ''a'') (jugar sin_tabla [lit ''c''] ronda_casa))) ! 3
       = Some (toUpperCase sin_tabla (lit ''a''))
   \<and> letrasDescubiertas
        (snd (procesarLetra sin_tabla (lit ''a'') (jugar sin_tabla [lit ''c''] ronda_casa))) ! 0
       = letrasDescubiertas (jugar sin_tabla [lit ''c''] ronda_casa) ! 0
   \<and> intentosFallidos
        (snd (procesarLetra sin_tabla (lit ''a'') (jugar sin_tabla [lit ''c''] ronda_casa)))
       = intentosFallidos (jugar sin_tabla [lit ''c''] ronda_casa)"
proof -
  let ?s = "jugar sin_tabla [lit ''c''] ronda_casa"
  let ?L = "toUpperCase sin_tabla (lit ''a'')"
  have h1: "aceptada sin_tabla (lit ''a'') ?s" by code_simp
  have h2: "(1::nat) < length (palabraSecreta ?s)" by code_simp
  have h3: "[palabraSecreta ?s ! 1] = ?L" by code_simp
  have k3: "(3::nat) < length (palabraSecreta ?s)" "[palabraSecreta ?s ! 3] = ?L"
    by code_simp+
  have k0: "(0::nat) < length (palabraSecreta ?s)" "[palabraSecreta ?s ! 0] \<noteq> ?L"
    by code_simp+
  note t = acierto_revela_posiciones [OF ronda_casa_inicio h1 h2 h3]
  from t have q: "\<forall>i<length (palabraSecreta ?s).
      if [palabraSecreta ?s ! i] = ?L
      then letrasDescubiertas ?s ! i = Some guion
         \<and> letrasDescubiertas (snd (procesarLetra sin_tabla (lit ''a'') ?s)) ! i = Some ?L
      else letrasDescubiertas (snd (procesarLetra sin_tabla (lit ''a'') ?s)) ! i
         = letrasDescubiertas ?s ! i"
    by (rule conjunct1)
  from q h2 h3 have c1: "letrasDescubiertas ?s ! 1 = Some guion
      \<and> letrasDescubiertas (snd (procesarLetra sin_tabla (lit ''a'') ?s)) ! 1 = Some ?L"
    by metis
  from q k3 have c3: "letrasDescubiertas ?s ! 3 = Some guion
      \<and> letrasDescubiertas (snd (procesarLetra sin_tabla (lit ''a'') ?s)) ! 3 = Some ?L"
    by metis
  from q k0 have c0: "letrasDescubiertas (snd (procesarLetra sin_tabla (lit ''a'') ?s)) ! 0
      = letrasDescubiertas ?s ! 0"
    by metis
  from t have i: "intentosFallidos (snd (procesarLetra sin_tabla (lit ''a'') ?s))
      = intentosFallidos ?s"
    by blast
  from c1 c3 c0 i show ?thesis
    by blast
qed

subsection \<open>C5: a letter submitted again\<close>

text \<open>
  C5. After an accepted letter and any further texts in the same round, a valid text
  with the same upper case leaves the whole state as it is, so \<open>intentosFallidos\<close>,
  \<open>letrasDescubiertas\<close> and \<open>letrasUsadas\<close> among the rest; while the round is
  open the call alerts that the letter has been used already, and once the round is
  over it returns without an alert.
\<close>

theorem letra_repetida:
  assumes primera: "aceptada tabla letra s0"
    and misma: "toUpperCase tabla letra2 = toUpperCase tabla letra"
    and val: "valido (validarInput letra2)"
  shows "snd (procesarLetra tabla letra2 (jugar tabla letras (snd (procesarLetra tabla letra s0))))
           = jugar tabla letras (snd (procesarLetra tabla letra s0))
         \<and> fst (procesarLetra tabla letra2 (jugar tabla letras (snd (procesarLetra tabla letra s0))))
           = (if juegoTerminado (jugar tabla letras (snd (procesarLetra tabla letra s0)))
              then None
              else Some ''Ya has usado esta letra. Intenta con otra.'')"
proof -
  let ?s1 = "snd (procesarLetra tabla letra s0)"
  let ?s = "jugar tabla letras ?s1"
  have "toUpperCase tabla letra \<in> letrasUsadas ?s1"
  proof (cases "comprobarLetra tabla letra (palabraSecreta s0) = []")
    case True
    from procesarLetra_fallo(5) [OF primera True] show ?thesis by simp
  next
    case False
    from procesarLetra_acierto(5) [OF primera False] show ?thesis by simp
  qed
  with letrasUsadas_jugar [of ?s1 tabla letras]
  have "toUpperCase tabla letra2 \<in> letrasUsadas ?s"
    by (auto simp: misma)
  with val show ?thesis
    by (simp add: procesarLetra_def)
qed

theorem letra_repetida_witness:
  "procesarLetra sin_tabla (lit ''A'')
       (jugar sin_tabla [lit ''x''] (snd (procesarLetra sin_tabla (lit ''a'') ronda_casa))) =
     (Some ''Ya has usado esta letra. Intenta con otra.'',
      jugar sin_tabla [lit ''x''] (snd (procesarLetra sin_tabla (lit ''a'') ronda_casa)))"
proof -
  have h1: "aceptada sin_tabla (lit ''a'') ronda_casa" by code_simp
  have h2: "toUpperCase sin_tabla (lit ''A'') = toUpperCase sin_tabla (lit ''a'')" by code_simp
  have h3: "valido (validarInput (lit ''A''))" by code_simp
  have w: "\<not> juegoTerminado
      (jugar sin_tabla [lit ''x''] (snd (procesarLetra sin_tabla (lit ''a'') ronda_casa)))"
    by code_simp
  from letra_repetida [OF h1 h2 h3, of "[lit ''x'']"] w show ?thesis
    by (simp add: prod_eq_iff)
qed

subsection \<open>C6: the losing guess discloses the word\<close>

text \<open>
  C6. When a call of \<open>procesarLetra\<close> in an open round brings \<open>intentosFallidos\<close>
  to \<open>MAX_INTENTOS\<close>, the round is lost (and not won) after the call, and
  \<open>letrasDescubiertas\<close> is the secret word, one code unit per cell: no placeholder
  is left that stands for a letter.
\<close>

theorem derrota_revela_palabra:
  assumes "\<not> juegoTerminado s"
    and "intentosFallidos s < MAX_INTENTOS"
    and "intentosFallidos (snd (procesarLetra tabla letra s)) = MAX_INTENTOS"
  shows "perdido (snd (procesarLetra tabla letra s))
         \<and> \<not> ganado (snd (procesarLetra tabla letra s))
         \<and> letrasDescubiertas (snd (procesarLetra tabla letra s)) =
             map (\<lambda>u. Some [u]) (palabraSecreta s)
         \<and> palabraSecreta (snd (procesarLetra tabla letra s)) = palabraSecreta s"
proof -
  let ?s' = "snd (procesarLetra tabla letra s)"
  from assms(2,3) have cambia: "intentosFallidos ?s' \<noteq> intentosFallidos s"
    by simp
  have ac: "aceptada tabla letra s"
  proof (rule ccontr)
    assume "\<not> aceptada tabla letra s"
    then have "?s' = s" by (rule procesarLetra_rechazada)
    with cambia show False by simp
  qed
  have vacio: "comprobarLetra tabla letra (palabraSecreta s) = []"
  proof (rule ccontr)
    assume "comprobarLetra tabla letra (palabraSecreta s) \<noteq> []"
    from procesarLetra_acierto(4) [OF ac this] cambia show False by simp
  qed
  note f = procesarLetra_fallo [OF ac vacio]
  from assms(3) have "MAX_INTENTOS \<le> intentosFallidos s + 1"
    by (simp add: f(4))
  then show ?thesis
    by (simp add: f perdido_def ganado_def)
qed

text \<open>The word \<open>SOL\<close> after seven letters that are not in it, and an eighth.\<close>

theorem derrota_revela_palabra_witness:
  "perdido (snd (procesarLetra sin_tabla (lit ''h'') sol_7))
   \<and> letrasDescubiertas (snd (procesarLetra sin_tabla (lit ''h'') sol_7)) =
       [Some (lit ''S''), Some (lit ''O''), Some (lit ''L'')]"
proof -
  have h1: "\<not> juegoTerminado sol_7" by code_simp
  have h2: "intentosFallidos sol_7 < MAX_INTENTOS" by code_simp
  have h3: "intentosFallidos (snd (procesarLetra sin_tabla (lit ''h'') sol_7)) = MAX_INTENTOS"
    by code_simp
  have w: "map (\<lambda>u. Some [u]) (palabraSecreta sol_7) =
      [Some (lit ''S''), Some (lit ''O''), Some (lit ''L'')]"
    by code_simp
  from derrota_revela_palabra [OF h1 h2 h3] show ?thesis
    by (simp add: w)
qed

subsection \<open>C7: a start that fails\<close>

text \<open>
  C7 as stated does not hold: a start with the theme \<open>musica\<close> that fails on an
  empty word list leaves \<open>currentTheme\<close> different from what it was.
\<close>

theorem inicio_fallido_counterexample:
  "fst (inicializarJuego sin_tabla (lit ''musica'') (Respuesta True (Documento (Some []))) cero sol_7)
     = Some TypeError
   \<and> currentTheme (snd (inicializarJuego sin_tabla (lit ''musica'')
                          (Respuesta True (Documento (Some []))) cero sol_7))
     \<noteq> currentTheme sol_7"
proof -
  have "currentTheme sol_7 = lit ''general''" by code_simp
  then show ?thesis
    by (simp add: inicializarJuego_def cargarPalabras_def obtenerPalabraAleatoria_def
        mostrarError_def lit_def)
qed

text \<open>
  C7, amended. When \<open>inicializarJuego\<close> fails, the state is the one before the call
  but for two things: \<open>currentTheme\<close> is the requested theme, and the result message
  has lost the classes \<open>win\<close>, \<open>lose\<close> and \<open>hidden\<close> (it shows the error). So
  \<open>palabraSecreta\<close>, \<open>letrasDescubiertas\<close>, \<open>letrasUsadas\<close>,
  \<open>intentosFallidos\<close>, \<open>juegoTerminado\<close> and \<open>letrasIncorrectas\<close> are unchanged.
  The start fails when the fetch is rejected, the response is not ok, the body does not
  parse or parses to \<open>null\<close>, the document has no word list, or the word list is
  empty.
\<close>

theorem inicio_fallido:
  assumes "fst (inicializarJuego tabla theme r azar s) = Some e"
  shows "snd (inicializarJuego tabla theme r azar s) =
           s\<lparr>currentTheme := theme,
             resultMessage := resultMessage s - {''win'', ''lose'', ''hidden''}\<rparr>
         \<and> palabraSecreta (snd (inicializarJuego tabla theme r azar s)) = palabraSecreta s
         \<and> letrasDescubiertas (snd (inicializarJuego tabla theme r azar s)) = letrasDescubiertas s
         \<and> letrasUsadas (snd (inicializarJuego tabla theme r azar s)) = letrasUsadas s
         \<and> intentosFallidos (snd (inicializarJuego tabla theme r azar s)) = intentosFallidos s
         \<and> juegoTerminado (snd (inicializarJuego tabla theme r azar s)) = juegoTerminado s
         \<and> letrasIncorrectas (snd (inicializarJuego tabla theme r azar s)) = letrasIncorrectas s
         \<and> currentTheme (snd (inicializarJuego tabla theme r azar s)) = theme
         \<and> fst (inicializarJuego tabla theme FetchRechazado azar s) = Some ErrorFetch
         \<and> fst (inicializarJuego tabla theme (Respuesta False c) azar s) = Some ErrorCarga
         \<and> fst (inicializarJuego tabla theme (Respuesta True JsonInvalido) azar s)
             = Some ErrorSintaxis
         \<and> fst (inicializarJuego tabla theme (Respuesta True JsonNulo) azar s)
             = Some TypeError
         \<and> fst (inicializarJuego tabla theme (Respuesta True (Documento None)) azar s)
             = Some TypeError
         \<and> fst (inicializarJuego tabla theme (Respuesta True (Documento (Some []))) azar s)
             = Some TypeError"
proof -
  have "snd (inicializarJuego tabla theme r azar s) =
           s\<lparr>currentTheme := theme,
             resultMessage := resultMessage s - {''win'', ''lose'', ''hidden''}\<rparr>"
    using assms
    by (auto simp: inicializarJuego_def mostrarError_def Let_def split: sum.splits)
  then show ?thesis
    by (simp add: inicializarJuego_def cargarPalabras_def obtenerPalabraAleatoria_def)
qed

theorem inicio_fallido_witness:
  "palabraSecreta (snd (inicializarJuego sin_tabla (lit ''musica'') FetchRechazado cero sol_7))
     = palabraSecreta sol_7
   \<and> intentosFallidos (snd (inicializarJuego sin_tabla (lit ''musica'') FetchRechazado cero sol_7))
     = intentosFallidos sol_7
   \<and> currentTheme (snd (inicializarJuego sin_tabla (lit ''musica'') FetchRechazado cero sol_7))
     = lit ''musica''"
proof -
  have h: "fst (inicializarJuego sin_tabla (lit ''musica'') FetchRechazado cero sol_7)
      = Some ErrorFetch"
    by (simp add: inicializarJuego_def cargarPalabras_def)
  from inicio_fallido [OF h] show ?thesis
    by blast
qed

subsection \<open>C8: the word source\<close>

text \<open>
  C8 as stated does not hold: \<open>cargarPalabras\<close> returns an empty word list as it
  is, without failing.
\<close>

theorem cargarPalabras_vacio_counterexample:
  "cargarPalabras (Respuesta True (Documento (Some []))) = Inr (Some [])"
  by (simp add: cargarPalabras_def)

text \<open>
  C8, amended. With \<open>Math.random()\<close> a double in \<open>[0, 1)\<close> and a word list that
  is not empty, the index \<open>obtenerPalabraAleatoria\<close> computes (the floor of the double
  product) is within the list, and the function returns the upper case of the \<open>item\<close>
  of the entry at that index. On an empty list, and on a missing one, it throws a
  TypeError and returns nothing. \<open>cargarPalabras\<close> returns whatever the document
  holds as its word list, the empty list and the missing one too, and fails exactly
  when the fetch is rejected, the response is not ok, the body does not parse, or the
  body parses to \<open>null\<close>.
\<close>

theorem fuente_de_palabras:
  assumes "aleatorio azar" and "palabras \<noteq> []"
  shows "Math_floor (por_longitud azar (length palabras)) < length palabras
         \<and> obtenerPalabraAleatoria tabla azar (Some palabras) =
             Inr (toUpperCase tabla
                   (item (palabras ! Math_floor (por_longitud azar (length palabras)))))
         \<and> obtenerPalabraAleatoria tabla azar (Some []) = Inl TypeError
         \<and> obtenerPalabraAleatoria tabla azar None = Inl TypeError
         \<and> cargarPalabras (Respuesta True (Documento ws)) = Inr ws
         \<and> ((\<exists>e. cargarPalabras r = Inl e) \<longleftrightarrow>
              r = FetchRechazado \<or> (\<exists>c. r = Respuesta False c)
              \<or> r = Respuesta True JsonInvalido \<or> r = Respuesta True JsonNulo)
         \<and> cargarPalabras FetchRechazado = Inl ErrorFetch
         \<and> cargarPalabras (Respuesta False c) = Inl ErrorCarga
         \<and> cargarPalabras (Respuesta True JsonInvalido) = Inl ErrorSintaxis
         \<and> cargarPalabras (Respuesta True JsonNulo) = Inl TypeError"
proof -
  from assms(2) have "0 < length palabras"
    by simp
  with assms(1) have i: "Math_floor (por_longitud azar (length palabras)) < length palabras"
    by (rule indice_en_rango)
  then have p: "obtenerPalabraAleatoria tabla azar (Some palabras) =
      Inr (toUpperCase tabla
            (item (palabras ! Math_floor (por_longitud azar (length palabras)))))"
    by (simp add: obtenerPalabraAleatoria_def)
  have f: "(\<exists>e. cargarPalabras r = Inl e) \<longleftrightarrow>
      r = FetchRechazado \<or> (\<exists>c. r = Respuesta False c)
      \<or> r = Respuesta True JsonInvalido \<or> r = Respuesta True JsonNulo"
    by (cases r rule: respuesta.exhaust)
       (auto simp: cargarPalabras_def split: cuerpo.splits)
  from i p f show ?thesis
    by (simp add: obtenerPalabraAleatoria_def cargarPalabras_def)
qed

text \<open>
  Three words and the double nearest to two thirds: the exact product is half a unit
  in the last place below 2, the double product is 2, and the third word is drawn.
\<close>

theorem fuente_de_palabras_witness:
  "obtenerPalabraAleatoria sin_tabla dos_tercios (Some tres_palabras) = Inr (lit ''LUNA'')
   \<and> obtenerPalabraAleatoria sin_tabla dos_tercios (Some []) = Inl TypeError"
proof -
  have h1: "aleatorio dos_tercios"
    by (simp add: aleatorio_def dos_tercios_def)
  have h2: "tres_palabras \<noteq> []"
    by (simp add: tres_palabras_def)
  have i: "Math_floor (por_longitud dos_tercios (length tres_palabras)) = 2"
    by (simp add: tres_palabras_def Math_floor_def por_longitud_def dos_tercios_def
        redondear_def bits.simps Let_def)
  have w: "toUpperCase sin_tabla (item (tres_palabras ! 2)) = lit ''LUNA''"
    by (simp add: tres_palabras_def toUpperCase_def mayus_latin1_def lit_def)
  from fuente_de_palabras [OF h1 h2, of sin_tabla]
  have "obtenerPalabraAleatoria sin_tabla dos_tercios (Some tres_palabras) =
      Inr (toUpperCase sin_tabla
            (item (tres_palabras ! Math_floor (por_longitud dos_tercios (length tres_palabras)))))"
    and "obtenerPalabraAleatoria sin_tabla dos_tercios (Some []) = Inl TypeError"
    by blast+
  then show ?thesis
    by (simp only: i w)
qed

subsection \<open>C9: \<open>validarInput\<close>\<close>

text \<open>
  C9 as stated does not hold: two spaces are more than one character and are not
  rejected as too long, and one space is a single character outside the alphabet and is
  not rejected as a disallowed character; both get the message of the empty input.
\<close>

theorem validarInput_blancos_counterexample:
  "length (lit ''  '') > 1
   \<and> mensaje (validarInput (lit ''  '')) \<noteq> ''Solo puedes introducir una letra''
   \<and> length (lit '' '') = 1
   \<and> \<not> en_alfabeto (lit '' '' ! 0)
   \<and> mensaje (validarInput (lit '' '')) \<noteq> ''Solo se permiten letras''"
  by code_simp

text \<open>
  C9, amended. \<open>validarInput\<close> takes no state and returns none. An input that is
  empty or all white space is rejected with the message asking for a letter; any other
  input of more than one code unit with the message that only one letter may be
  entered; any other input whose single code unit is outside the alphabet with the
  message that only letters are allowed; the three messages differ. A single letter of
  the alphabet is valid. So \<open>5\<close>, \<open>ab\<close> and the empty input get the third, the
  second and the first message. A call of \<open>procesarLetra\<close> with an invalid input
  leaves the state as it is and, in an open round, alerts that message.
\<close>

theorem validarInput_clasifica:
  shows "(if list_all es_blanco input
          then validarInput input =
                 \<lparr>valido = False, mensaje = ''Por favor, introduce una letra''\<rparr>
          else if 1 < length input
          then validarInput input =
                 \<lparr>valido = False, mensaje = ''Solo puedes introducir una letra''\<rparr>
          else if en_alfabeto (hd input)
          then validarInput input = \<lparr>valido = True, mensaje = ''''\<rparr>
          else validarInput input = \<lparr>valido = False, mensaje = ''Solo se permiten letras''\<rparr>)
         \<and> (en_alfabeto u \<longrightarrow> validarInput [u] = \<lparr>valido = True, mensaje = ''''\<rparr>)
         \<and> validarInput (lit ''5'') = \<lparr>valido = False, mensaje = ''Solo se permiten letras''\<rparr>
         \<and> validarInput (lit ''ab'') =
             \<lparr>valido = False, mensaje = ''Solo puedes introducir una letra''\<rparr>
         \<and> validarInput (lit '''') = \<lparr>valido = False, mensaje = ''Por favor, introduce una letra''\<rparr>
         \<and> ''Por favor, introduce una letra'' \<noteq> ''Solo puedes introducir una letra''
         \<and> ''Por favor, introduce una letra'' \<noteq> ''Solo se permiten letras''
         \<and> ''Solo puedes introducir una letra'' \<noteq> ''Solo se permiten letras''
         \<and> (\<not> valido (validarInput input) \<longrightarrow>
              snd (procesarLetra tabla input s) = s
              \<and> fst (procesarLetra tabla input s) =
                  (if juegoTerminado s then None else Some (mensaje (validarInput input))))"
proof -
  have a: "if list_all es_blanco input
          then validarInput input =
                 \<lparr>valido = False, mensaje = ''Por favor, introduce una letra''\<rparr>
          else if 1 < length input
          then validarInput input =
                 \<lparr>valido = False, mensaje = ''Solo puedes introducir una letra''\<rparr>
          else if en_alfabeto (hd input)
          then validarInput input = \<lparr>valido = True, mensaje = ''''\<rparr>
          else validarInput input = \<lparr>valido = False, mensaje = ''Solo se permiten letras''\<rparr>"
    by (cases input; cases "tl input")
       (auto simp: validarInput_def trim_vacio_def regex_letra_def)
  have b: "validarInput [u] = \<lparr>valido = True, mensaje = ''''\<rparr>" if "en_alfabeto u"
    using that alfabeto_no_blanco [OF that]
    by (simp add: validarInput_def trim_vacio_def regex_letra_def)
  have c: "validarInput (lit ''5'') = \<lparr>valido = False, mensaje = ''Solo se permiten letras''\<rparr>"
    "validarInput (lit ''ab'') =
             \<lparr>valido = False, mensaje = ''Solo puedes introducir una letra''\<rparr>"
    "validarInput (lit '''') = \<lparr>valido = False, mensaje = ''Por favor, introduce una letra''\<rparr>"
    by code_simp+
  have d: "snd (procesarLetra tabla input s) = s
      \<and> fst (procesarLetra tabla input s) =
          (if juegoTerminado s then None else Some (mensaje (validarInput input)))"
    if "\<not> valido (validarInput input)"
    using that by (simp add: procesarLetra_def)
  from a b c d show ?thesis
    by simp
qed

theorem validarInput_clasifica_witness:
  "validarInput (lit ''n'') = \<lparr>valido = True, mensaje = ''''\<rparr>
   \<and> validarInput [0xF1] = \<lparr>valido = True, mensaje = ''''\<rparr>
   \<and> procesarLetra sin_tabla (lit ''5'') ronda_sol = (Some ''Solo se permiten letras'', ronda_sol)"
proof -
  have h: "en_alfabeto 0xF1" "en_alfabeto 0x6E" "lit ''n'' = [0x6E]"
    "\<not> juegoTerminado ronda_sol"
    by code_simp+
  have v: "\<not> valido (validarInput (lit ''5''))" "mensaje (validarInput (lit ''5'')) = ''Solo se permiten letras''"
    by code_simp+
  from validarInput_clasifica [of "lit ''5''" "0xF1" sin_tabla ronda_sol]
       validarInput_clasifica [of "lit ''5''" "0x6E" sin_tabla ronda_sol] h v
  show ?thesis
    by (simp only: prod_eq_iff fst_conv snd_conv) simp
qed

subsection \<open>C10: \<open>revelarLetras\<close> writes to a copy\<close>

text \<open>
  C10. Called with the address \<open>p\<close> of an array, \<open>revelarLetras\<close> returns an
  address \<open>q\<close> that held no array before the call; every array that was in the store,
  the one at \<open>p\<close> among them, is what it was. In the array at \<open>q\<close> each listed index
  reads as the upper case of the letter and every other index reads as it does in the
  array at \<open>p\<close>. So, unless the upper case of the letter is itself the placeholder, a
  cell that does not read as the placeholder before does not read as it after.
\<close>

theorem revelarLetras_copia:
  assumes "p < length m"
  shows "\<exists>q m'. revelarLetras_mem tabla m p letra indices = Some (q, m')
           \<and> q = length m
           \<and> length m' = Suc (length m)
           \<and> (\<forall>a. a < length m \<longrightarrow> m' ! a = m ! a)
           \<and> m' ! q = revelarLetras tabla (m ! p) letra indices
           \<and> (\<forall>i. leer (m' ! q) i =
                 (if i \<in> set indices then Some (toUpperCase tabla letra) else leer (m ! p) i))
           \<and> (toUpperCase tabla letra \<noteq> guion \<longrightarrow>
                (\<forall>i. leer (m ! p) i \<noteq> Some guion \<longrightarrow> leer (m' ! q) i \<noteq> Some guion))"
proof -
  let ?r = "revelarLetras tabla (m ! p) letra indices"
  have "revelarLetras_mem tabla m p letra indices = Some (length m, m @ [?r])"
    using assms by (rule revelarLetras_mem_eq)
  moreover have "\<forall>a. a < length m \<longrightarrow> (m @ [?r]) ! a = m ! a"
    by (simp add: nth_append)
  moreover have "(m @ [?r]) ! length m = ?r"
    by simp
  moreover have "\<forall>i. leer ?r i =
      (if i \<in> set indices then Some (toUpperCase tabla letra) else leer (m ! p) i)"
    by (simp add: leer_revelarLetras)
  moreover have "toUpperCase tabla letra \<noteq> guion \<longrightarrow>
      (\<forall>i. leer (m ! p) i \<noteq> Some guion \<longrightarrow> leer ?r i \<noteq> Some guion)"
    by (simp add: leer_revelarLetras)
  ultimately show ?thesis
    by simp
qed

theorem revelarLetras_copia_witness:
  "revelarLetras_mem sin_tabla [[Some (lit ''S''), Some guion, Some guion, Some guion]] 0
       (lit ''o'') [1, 3] =
     Some (1, [[Some (lit ''S''), Some guion, Some guion, Some guion],
               [Some (lit ''S''), Some (lit ''O''), Some guion, Some (lit ''O'')]])"
proof -
  let ?a = "[Some (lit ''S''), Some guion, Some guion, Some guion]"
  have h: "(0::nat) < length [?a]"
    by simp
  from revelarLetras_copia [OF h, of sin_tabla "lit ''o''" "[1, 3]"]
  obtain q m' where r: "revelarLetras_mem sin_tabla [?a] 0 (lit ''o'') [1, 3] = Some (q, m')"
    and q: "q = 1" and len: "length m' = 2"
    and old: "m' ! 0 = ?a"
    and new: "m' ! q = revelarLetras sin_tabla ?a (lit ''o'') [1, 3]"
    by auto
  have "revelarLetras sin_tabla ?a (lit ''o'') [1, 3]
      = [Some (lit ''S''), Some (lit ''O''), Some guion, Some (lit ''O'')]"
    by (simp add: revelarLetras_def asignar_def toUpperCase_def mayus_latin1_def lit_def)
  with new q have new': "m' ! 1 = [Some (lit ''S''), Some (lit ''O''), Some guion, Some (lit ''O'')]"
    by simp
  from len obtain x y where "m' = [x, y]"
    by (cases m'; cases "tl m'") auto
  with old new' r q show ?thesis
    by simp
qed

end
